theory Spec2Isabelle
  imports Complex_Main
begin

section \<open>Numbers of the source\<close>

text \<open>
  The backend (\<^verbatim>\<open>backend/server.js\<close>) computes with JavaScript numbers. They are
  modelled as \<^typ>\<open>real\<close>: arithmetic is exact, so every statement below is a statement
  about the computation up to floating-point rounding. \<^verbatim>\<open>NaN\<close> and the infinities have
  no counterpart; the divisions of the modelled code are by non-zero constants or stand
  behind a guard of the source. \<^verbatim>\<open>validateAndAdjustCPUMemoryRatio\<close> divides by its CPU
  argument, which every caller tests to be non-zero first; the theorems about it assume a
  positive one. The quotient \<^verbatim>\<open>memoryGiB / 6.5\<close> is exact here and rounded in the source,
  where the raised CPU value can leave the ratio one last digit above 6.5; so the bound on
  the validator's result is a bound up to that rounding, and nothing below is stated
  about validating the validator's own result a second time.
\<close>

definition js_or :: "real \<Rightarrow> real \<Rightarrow> real" where
  \<comment> \<open>\<^verbatim>\<open>x || d\<close> on numbers: \<^verbatim>\<open>0\<close> is falsy.\<close>
  "js_or x d = (if x = 0 then d else x)"

definition Math_round :: "real \<Rightarrow> real" where
  \<comment> \<open>\<^verbatim>\<open>Math.round\<close>: the nearest integer, a tie going up.\<close>
  "Math_round x = of_int \<lfloor>x + 1 / 2\<rfloor>"

definition Math_ceil :: "real \<Rightarrow> real" where
  "Math_ceil x = of_int \<lceil>x\<rceil>"

section \<open>CPU to memory ratio validation\<close>

text \<open>The object returned by \<^verbatim>\<open>validateAndAdjustCPUMemoryRatio\<close>: its four properties.\<close>

record ratioValidation =
  cpu :: real
  memory :: real
  adjusted :: bool
  reason :: "string option"

definition validateAndAdjustCPUMemoryRatio :: "real \<Rightarrow> real \<Rightarrow> ratioValidation" where
  "validateAndAdjustCPUMemoryRatio cpuCores memoryBytes =
     (let memoryGiB = memoryBytes / (1024 * 1024 * 1024);
          ratio = memoryGiB / cpuCores
      in if ratio < 1 then
           \<lparr> cpu = cpuCores,
             memory = cpuCores * 1024 * 1024 * 1024,
             adjusted = True,
             reason = Some ''Memory increased to maintain minimum 1:1 vCPU:GiB ratio'' \<rparr>
         else if ratio > 6.5 then
           \<lparr> cpu = memoryGiB / 6.5,
             memory = memoryBytes,
             adjusted = True,
             reason = Some ''CPU increased to maintain maximum 1:6.5 vCPU:GiB ratio'' \<rparr>
         else
           \<lparr> cpu = cpuCores, memory = memoryBytes, adjusted = False, reason = None \<rparr>)"

definition gibPerCore :: "real \<Rightarrow> real \<Rightarrow> real" where
  \<comment> \<open>The ratio the validator looks at: GiB of memory per vCPU.\<close>
  "gibPerCore cpuCores memoryBytes = memoryBytes / (1024 * 1024 * 1024) / cpuCores"

definition ratioBound :: "real \<Rightarrow> real \<Rightarrow> bool" where
  "ratioBound cpuCores memoryBytes =
     (1 \<le> gibPerCore cpuCores memoryBytes \<and> gibPerCore cpuCores memoryBytes \<le> 6.5)"


section \<open>Time series\<close>

text \<open>
  A time series of the telemetry API, reduced to what the backend reads: the container
  label (\<^verbatim>\<open>metric.labels.container_name\<close>, empty when the label is missing) and
  the points. A point carries \<^verbatim>\<open>value.doubleValue\<close> (\<open>None\<close> when undefined) and
  \<^verbatim>\<open>parseInt(interval.endTime.seconds || 0)\<close>. A series without \<^verbatim>\<open>points\<close>
  behaves as one with no points everywhere in the source, so both are the empty list here.
\<close>

record point =
  doubleValue :: "real option"
  endTimeSeconds :: int

record series =
  container_name :: string
  points :: "point list"

definition calculateCurrentUsage :: "series list \<Rightarrow> real" where
  "calculateCurrentUsage timeSeries =
     (case timeSeries of
        [] \<Rightarrow> 0
      | latestSeries # _ \<Rightarrow>
          (case points latestSeries of
             [] \<Rightarrow> 0
           | latestPoint # _ \<Rightarrow>
               (case doubleValue latestPoint of None \<Rightarrow> 0 | Some v \<Rightarrow> js_or v 0)))"

text \<open>
  The reading of the specification, for comparison with \<^const>\<open>calculateCurrentUsage\<close>:
  the value of the point with the most recent timestamp across all series, \<open>0\<close> when there
  is no point.
\<close>

fun mostRecent :: "point option \<Rightarrow> point list \<Rightarrow> point option" where
  "mostRecent best [] = best"
| "mostRecent None (p # ps) = mostRecent (Some p) ps"
| "mostRecent (Some b) (p # ps) =
     mostRecent (if endTimeSeconds p > endTimeSeconds b then Some p else Some b) ps"

definition latestValue_spec :: "series list \<Rightarrow> real" where
  "latestValue_spec timeSeries =
     (case mostRecent None (concat (map points timeSeries)) of
        None \<Rightarrow> 0
      | Some p \<Rightarrow> (case doubleValue p of None \<Rightarrow> 0 | Some v \<Rightarrow> v))"

section \<open>Rounding to practical increments\<close>

definition mebibyte :: real where
  "mebibyte = 1024 * 1024"

text \<open>
  The two expressions the source repeats wherever it rounds:
  \<^verbatim>\<open>Math.max(10, Math.ceil(x / 10) * 10)\<close> for millicores and
  \<^verbatim>\<open>Math.max(16 * mebibyte, Math.ceil(x / (16 * mebibyte)) * (16 * mebibyte))\<close> for bytes.
\<close>

definition roundCpuMillicores :: "real \<Rightarrow> real" where
  "roundCpuMillicores x = max 10 (Math_ceil (x / 10) * 10)"

definition roundMemoryBytes :: "real \<Rightarrow> real" where
  "roundMemoryBytes x = max (16 * mebibyte) (Math_ceil (x / (16 * mebibyte)) * (16 * mebibyte))"

section \<open>Usage-based recommendation\<close>

datatype metricType = Cpu | Memory

definition collectValues :: "series list \<Rightarrow> real list" where
  \<comment> \<open>The \<^verbatim>\<open>values\<close> array: every truthy \<^verbatim>\<open>doubleValue\<close>, in order.\<close>
  "collectValues timeSeries =
     concat (map (\<lambda>s. concat (map (\<lambda>p. case doubleValue p of
                                           None \<Rightarrow> []
                                         | Some v \<Rightarrow> if v = 0 then [] else [v]) (points s)))
             timeSeries)"

fun Math_max :: "real list \<Rightarrow> real" where
  \<comment> \<open>\<^verbatim>\<open>Math.max(...values)\<close>; the source calls it on a non-empty array only.\<close>
  "Math_max [] = 0"
| "Math_max (x # xs) = fold max xs x"

definition defaultRequest :: "metricType \<Rightarrow> real" where
  "defaultRequest metricType = (case metricType of Cpu \<Rightarrow> 10 | Memory \<Rightarrow> 16 * 1024 * 1024)"

definition calculateRecommendation :: "series list \<Rightarrow> metricType \<Rightarrow> real \<Rightarrow> real" where
  "calculateRecommendation timeSeries metricType currentRequest =
     (if timeSeries = [] then js_or currentRequest (defaultRequest metricType)
      else
        let values = collectValues timeSeries in
        if values = [] then js_or currentRequest (defaultRequest metricType)
        else
          let sorted = sort values in
          (case metricType of
             Cpu \<Rightarrow>
               let p90Index = nat \<lfloor>real (length sorted) * 0.9\<rfloor>;
                   recommendation = (sorted ! p90Index) * 1.15 * 1000
               in roundCpuMillicores recommendation
           | Memory \<Rightarrow>
               let recommendation = Math_max sorted * 1.2
               in roundMemoryBytes recommendation))"

section \<open>Autoscaler (VPA) recommendations\<close>

fun mapSet :: "string \<Rightarrow> 'v \<Rightarrow> (string \<times> 'v) list \<Rightarrow> (string \<times> 'v) list" where
  \<comment> \<open>\<^verbatim>\<open>Map.prototype.set\<close>: a known key keeps its place, a new one goes last.\<close>
  "mapSet k v [] = [(k, v)]"
| "mapSet k v ((k', v') # m) = (if k = k' then (k, v) # m else (k', v') # mapSet k v m)"

definition recordPoint :: "string \<Rightarrow> (string \<times> (real \<times> int)) list \<Rightarrow> point \<Rightarrow> (string \<times> (real \<times> int)) list" where
  \<comment> \<open>The body of the inner \<^verbatim>\<open>points.forEach\<close>: keep the later point of a container.\<close>
  "recordPoint containerName m p =
     (case doubleValue p of
        None \<Rightarrow> m
      | Some v \<Rightarrow>
          (case map_of m containerName of
             None \<Rightarrow> mapSet containerName (v, endTimeSeconds p) m
           | Some existing \<Rightarrow>
               if endTimeSeconds p > snd existing
               then mapSet containerName (v, endTimeSeconds p) m else m))"

definition recordSeries :: "(string \<times> (real \<times> int)) list \<Rightarrow> series \<Rightarrow> (string \<times> (real \<times> int)) list" where
  "recordSeries m s =
     (let containerName = (if container_name s = [] then ''unknown'' else container_name s)
      in fold (\<lambda>p acc. recordPoint containerName acc p) (points s) m)"

definition extractPerContainerRecommendations :: "series list \<Rightarrow> (string \<times> real) list" where
  "extractPerContainerRecommendations timeSeries =
     map (\<lambda>(containerName, recommendation). (containerName, fst recommendation))
       (fold (\<lambda>s acc. recordSeries acc s) timeSeries [])"

definition extractLatestRecommendation :: "series list \<Rightarrow> real option" where
  "extractLatestRecommendation timeSeries =
     (let perContainer = extractPerContainerRecommendations timeSeries
      in if perContainer = [] then None else Some (sum_list (map snd perContainer)))"


text \<open>
  The object \<^verbatim>\<open>getVPARecommendations\<close> returns. \<^verbatim>\<open>cpu\<close> and \<^verbatim>\<open>memory\<close> are
  \<^verbatim>\<open>null\<close> (\<open>None\<close>) or a number. The per-container objects are association lists in
  insertion order; a memory entry is \<open>None\<close> where the source stores \<^verbatim>\<open>undefined\<close>
  (a container with a CPU series and no memory series). The properties the error branch
  leaves out are the empty list and \<open>None\<close>: the readers treat a missing property so.
  Container names are taken not to be canonical numeric strings, which a JavaScript
  object would enumerate before the others.
\<close>

record vpaRecommendations =
  vpa_cpu :: "real option"
  vpa_memory :: "real option"
  cpuPerContainer :: "(string \<times> real) list"
  memoryPerContainer :: "(string \<times> real option) list"
  available :: bool
  ratioAdjustments_total :: "string option"
  ratioAdjustments_perContainer :: "(string \<times> string) list"

definition truthy :: "real option \<Rightarrow> bool" where
  \<comment> \<open>Truthiness of a value that is \<^verbatim>\<open>null\<close>, \<^verbatim>\<open>undefined\<close> or a number.\<close>
  "truthy v = (case v of None \<Rightarrow> False | Some x \<Rightarrow> x \<noteq> 0)"

definition truthyString :: "string option \<Rightarrow> bool" where
  "truthyString v = (case v of None \<Rightarrow> False | Some t \<Rightarrow> t \<noteq> [])"

definition adjustTotals :: "real option \<Rightarrow> real option \<Rightarrow> real option \<times> real option \<times> string option" where
  \<comment> \<open>\<^verbatim>\<open>adjustedTotalCpu\<close>, \<^verbatim>\<open>adjustedTotalMemory\<close>, \<^verbatim>\<open>totalAdjustmentReason\<close>.\<close>
  "adjustTotals cpuValue memoryValue =
     (case (cpuValue, memoryValue) of
        (Some c, Some m) \<Rightarrow>
          if c \<noteq> 0 \<and> m \<noteq> 0 then
            let totalRatioValidation = validateAndAdjustCPUMemoryRatio c m
            in (Some (cpu totalRatioValidation), Some (memory totalRatioValidation),
                reason totalRatioValidation)
          else (cpuValue, memoryValue, None)
      | _ \<Rightarrow> (cpuValue, memoryValue, None))"

definition adjustContainer ::
  "(string \<times> real) list \<Rightarrow> string \<times> real \<Rightarrow> string \<times> real \<times> real option \<times> string option" where
  \<comment> \<open>One round of the \<^verbatim>\<open>Object.keys(cpuPerContainer).forEach\<close>: the adjusted CPU, the
      adjusted memory and the entry of \<^verbatim>\<open>containerAdjustments\<close>, if any.\<close>
  "adjustContainer memPerContainer entry =
     (case entry of (containerName, containerCpu) \<Rightarrow>
        (case map_of memPerContainer containerName of
           None \<Rightarrow> (containerName, containerCpu, None, None)
         | Some containerMemory \<Rightarrow>
             if containerCpu \<noteq> 0 \<and> containerMemory \<noteq> 0 then
               let containerRatioValidation =
                     validateAndAdjustCPUMemoryRatio containerCpu containerMemory
               in (containerName, cpu containerRatioValidation,
                   Some (memory containerRatioValidation),
                   if adjusted containerRatioValidation
                   then reason containerRatioValidation else None)
             else (containerName, containerCpu, Some containerMemory, None)))"

definition getVPARecommendations ::
  "string + series list \<Rightarrow> string + series list \<Rightarrow> vpaRecommendations" where
  \<comment> \<open>The two arguments are what the two \<^verbatim>\<open>getMetricsFromMonitoring\<close> calls give: \<open>Inl\<close> is
      the message of the error thrown. The cache is left out (a miss, no store).\<close>
  "getVPARecommendations cpuFetch memoryFetch =
     (case cpuFetch of
        Inl _ \<Rightarrow> \<lparr> vpa_cpu = None, vpa_memory = None, cpuPerContainer = [],
                  memoryPerContainer = [], available = False,
                  ratioAdjustments_total = None, ratioAdjustments_perContainer = [] \<rparr>
      | Inr cpuRecommendations \<Rightarrow>
          (case memoryFetch of
             Inl _ \<Rightarrow> \<lparr> vpa_cpu = None, vpa_memory = None, cpuPerContainer = [],
                       memoryPerContainer = [], available = False,
                       ratioAdjustments_total = None, ratioAdjustments_perContainer = [] \<rparr>
           | Inr memoryRecommendations \<Rightarrow>
               let cpuValue = extractLatestRecommendation cpuRecommendations;
                   memoryValue = extractLatestRecommendation memoryRecommendations;
                   cpuPC = extractPerContainerRecommendations cpuRecommendations;
                   memoryPC = extractPerContainerRecommendations memoryRecommendations;
                   totals = adjustTotals cpuValue memoryValue;
                   containers = map (adjustContainer memoryPC) cpuPC
               in \<lparr> vpa_cpu = fst totals,
                    vpa_memory = fst (snd totals),
                    cpuPerContainer = map (\<lambda>(n, c, m, r). (n, c)) containers,
                    memoryPerContainer = map (\<lambda>(n, c, m, r). (n, m)) containers,
                    available = (length cpuRecommendations > 0 \<or> length memoryRecommendations > 0),
                    ratioAdjustments_total = snd (snd totals),
                    ratioAdjustments_perContainer =
                      concat (map (\<lambda>(n, c, m, r). case r of None \<Rightarrow> [] | Some t \<Rightarrow> [(n, t)])
                                containers) \<rparr>))"

definition getRecommendedCPU :: "vpaRecommendations \<Rightarrow> series list \<Rightarrow> real \<Rightarrow> real" where
  "getRecommendedCPU vpa cpuTimeSeries currentRequest =
     (case (if available vpa then vpa_cpu vpa else None) of
        Some c \<Rightarrow>
          let vpaCpuMillicores = Math_round (c * 1000)
          in roundCpuMillicores vpaCpuMillicores
      | None \<Rightarrow> calculateRecommendation cpuTimeSeries Cpu currentRequest)"

definition getRecommendedMemory :: "vpaRecommendations \<Rightarrow> series list \<Rightarrow> real \<Rightarrow> real" where
  "getRecommendedMemory vpa memoryTimeSeries currentRequest =
     (case (if available vpa then vpa_memory vpa else None) of
        Some m \<Rightarrow>
          let vpaMemoryBytes = Math_round m
          in roundMemoryBytes vpaMemoryBytes
      | None \<Rightarrow> calculateRecommendation memoryTimeSeries Memory currentRequest)"

section \<open>Efficiency and cost\<close>

record resourceValues =
  res_cpu :: real
  res_memory :: real

record resources =
  requests :: resourceValues
  limits :: "resourceValues option"

definition calculateEfficiency :: "series list \<Rightarrow> series list \<Rightarrow> resources \<Rightarrow> real" where
  "calculateEfficiency cpuSeries memorySeries res =
     (let cpuUsage = calculateCurrentUsage cpuSeries;
          memoryUsage = calculateCurrentUsage memorySeries;
          cpuRequest = js_or (res_cpu (requests res)) 100;
          memoryRequest = js_or (res_memory (requests res)) (128 * 1024 * 1024);
          cpuEfficiency =
            (if cpuRequest > 0 then min 100 ((cpuUsage * 1000 / cpuRequest) * 100) else 100);
          memoryEfficiency =
            (if memoryRequest > 0 then min 100 ((memoryUsage / memoryRequest) * 100) else 100)
      in Math_round ((cpuEfficiency + memoryEfficiency) / 2))"

definition calculateCost :: "resources \<Rightarrow> real \<Rightarrow> real" where
  "calculateCost res replicas =
     (let cpuCostPerHour = 0.031611;
          memoryCostPerHour = 0.004237;
          cpuCores = js_or (res_cpu (requests res)) 100 / 1000;
          memoryGB = js_or (res_memory (requests res)) (128 * 1024 * 1024) / (1024 * 1024 * 1024);
          hourlyCost = (cpuCores * cpuCostPerHour + memoryGB * memoryCostPerHour) * replicas;
          monthlyCost = hourlyCost * 24 * 30
      in Math_round (monthlyCost * 100) / 100)"

definition optimizedResources :: "vpaRecommendations \<Rightarrow> resources \<Rightarrow> resources" where
  \<comment> \<open>The \<^verbatim>\<open>optimizedResources\<close> of \<^verbatim>\<open>calculatePotentialSavingsWithVPA\<close>.\<close>
  "optimizedResources vpa res =
     (if available vpa then
        \<lparr> requests =
            \<lparr> res_cpu =
                (case vpa_cpu vpa of
                   None \<Rightarrow> js_or (res_cpu (requests res)) 100
                 | Some c \<Rightarrow> if c = 0 then js_or (res_cpu (requests res)) 100
                            else Math_round (c * 1000)),
              res_memory =
                (case vpa_memory vpa of
                   None \<Rightarrow> js_or (res_memory (requests res)) (128 * 1024 * 1024)
                 | Some m \<Rightarrow> if m = 0 then js_or (res_memory (requests res)) (128 * 1024 * 1024)
                            else Math_round m) \<rparr>,
          limits = None \<rparr>
      else
        \<lparr> requests =
            \<lparr> res_cpu = js_or (res_cpu (requests res)) 100,
              res_memory = js_or (res_memory (requests res)) (128 * 1024 * 1024) \<rparr>,
          limits = None \<rparr>)"

definition calculatePotentialSavingsWithVPA :: "vpaRecommendations \<Rightarrow> resources \<Rightarrow> real" where
  "calculatePotentialSavingsWithVPA vpa res =
     (let currentCost = calculateCost res 1;
          optimizedCost = calculateCost (optimizedResources vpa res) 1;
          savings = max 0 (currentCost - optimizedCost)
      in Math_round (savings * 100) / 100)"


section \<open>Recommendation text\<close>

text \<open>
  The lines \<^verbatim>\<open>generateRecommendationsWithVPA\<close> pushes, one constructor per template of
  the source, carrying the values the template interpolates. A memory figure is \<open>None\<close>
  where the source computes with \<^verbatim>\<open>undefined\<close> and prints \<^verbatim>\<open>NaN\<close>.
\<close>

datatype action = Increase | Reduce

datatype recommendationLine =
    CpuHeading
  | CpuContainer string real
  | CpuTotal real real
  | MemoryHeading
  | MemoryContainer string "real option"
  | MemoryTotal "real option" real
  | SuggestCpu action real
  | SuggestMemory action real
  | RatioNote
  | VpaNotYetAvailable
  | ReduceCpuRequest
  | IncreaseCpuRequest
  | ReduceMemoryRequest
  | IncreaseMemoryRequest
  | WellOptimized
  | EnableVpa

definition adjustmentReason :: "ratioValidation \<Rightarrow> string option" where
  \<comment> \<open>\<^verbatim>\<open>ratioValidation.adjustmentReason\<close>: the object returned by
      \<^verbatim>\<open>validateAndAdjustCPUMemoryRatio\<close> has the properties \<^verbatim>\<open>cpu\<close>, \<^verbatim>\<open>memory\<close>,
      \<^verbatim>\<open>adjusted\<close> and \<^verbatim>\<open>reason\<close>; reading any other one gives \<^verbatim>\<open>undefined\<close>.\<close>
  "adjustmentReason v = None"

fun sumNumbers :: "real option list \<Rightarrow> real option" where
  \<comment> \<open>\<^verbatim>\<open>total += x\<close> from \<open>0\<close>; one \<^verbatim>\<open>NaN\<close> makes the total \<^verbatim>\<open>NaN\<close>.\<close>
  "sumNumbers [] = Some 0"
| "sumNumbers (x # xs) =
     (case x of None \<Rightarrow> None | Some a \<Rightarrow> map_option (\<lambda>b. a + b) (sumNumbers xs))"

definition validateTotals :: "real \<Rightarrow> real option \<Rightarrow> real \<times> real option \<times> bool" where
  \<comment> \<open>Lines 1340 to 1361: \<^verbatim>\<open>finalTotalCpuMillicores\<close>, \<^verbatim>\<open>finalTotalMemoryBytes\<close>,
      \<^verbatim>\<open>ratioAdjustmentMade\<close>.\<close>
  "validateTotals totalRoundedCpuMillicores totalRoundedMemoryBytes =
     (case totalRoundedMemoryBytes of
        None \<Rightarrow> (totalRoundedCpuMillicores, None, False)
      | Some totalMemory \<Rightarrow>
          if totalRoundedCpuMillicores > 0 \<and> totalMemory > 0 then
            let ratioValidation =
                  validateAndAdjustCPUMemoryRatio (totalRoundedCpuMillicores / 1000) totalMemory
            in if truthyString (adjustmentReason ratioValidation) then
                 (roundCpuMillicores (Math_round (cpu ratioValidation * 1000)),
                  Some (roundMemoryBytes (memory ratioValidation)),
                  True)
               else (totalRoundedCpuMillicores, Some totalMemory, False)
          else (totalRoundedCpuMillicores, Some totalMemory, False))"

definition suggestion :: "(action \<Rightarrow> real \<Rightarrow> recommendationLine) \<Rightarrow> real option \<Rightarrow> recommendationLine list" where
  \<comment> \<open>The \<^verbatim>\<open>Math.abs(difference) > 20\<close> test; a \<^verbatim>\<open>NaN\<close> difference fails it.\<close>
  "suggestion line difference =
     (case difference of
        None \<Rightarrow> []
      | Some d \<Rightarrow>
          if \<bar>d\<bar> > 20 then [line (if d > 0 then Increase else Reduce) (Math_round \<bar>d\<bar>)]
          else [])"

definition generateRecommendationsWithVPA ::
  "vpaRecommendations \<Rightarrow> series list \<Rightarrow> series list \<Rightarrow> resources \<Rightarrow> recommendationLine list" where
  "generateRecommendationsWithVPA vpa cpuSeries memorySeries res =
     (if available vpa then
        let currentCpuRequest = js_or (res_cpu (requests res)) 100;
            currentMemoryRequest = js_or (res_memory (requests res)) (128 * 1024 * 1024);
            hasRatioAdjustments =
              (truthyString (ratioAdjustments_total vpa) \<or> ratioAdjustments_perContainer vpa \<noteq> []);
            roundedCpuPerContainer =
              map (\<lambda>(containerName, cpuCores).
                     (containerName, roundCpuMillicores (Math_round (cpuCores * 1000))))
                (cpuPerContainer vpa);
            totalRoundedCpuMillicores = sum_list (map snd roundedCpuPerContainer);
            roundedMemoryPerContainer =
              map (\<lambda>(containerName, memoryBytes).
                     (containerName, map_option roundMemoryBytes memoryBytes))
                (memoryPerContainer vpa);
            totalRoundedMemoryBytes = sumNumbers (map snd roundedMemoryPerContainer);
            final = validateTotals totalRoundedCpuMillicores totalRoundedMemoryBytes;
            finalTotalCpuMillicores = fst final;
            finalTotalMemoryBytes = fst (snd final);
            ratioAdjustmentMade = snd (snd final)
        in (if roundedCpuPerContainer \<noteq> [] then
              CpuHeading # map (\<lambda>(containerName, cpuMillicores).
                                  CpuContainer containerName cpuMillicores) roundedCpuPerContainer
                @ [CpuTotal finalTotalCpuMillicores currentCpuRequest]
            else [])
         @ (if roundedMemoryPerContainer \<noteq> [] then
              MemoryHeading # map (\<lambda>(containerName, memoryBytes).
                                     MemoryContainer containerName
                                       (map_option (\<lambda>b. Math_round (b / mebibyte)) memoryBytes))
                                roundedMemoryPerContainer
                @ [MemoryTotal (map_option (\<lambda>b. Math_round (b / mebibyte)) finalTotalMemoryBytes)
                     (Math_round (currentMemoryRequest / mebibyte))]
            else [])
         @ (if vpa_cpu vpa \<noteq> None then
              suggestion SuggestCpu
                (Some (((finalTotalCpuMillicores - currentCpuRequest) / currentCpuRequest) * 100))
            else [])
         @ (if vpa_memory vpa \<noteq> None then
              suggestion SuggestMemory
                (map_option (\<lambda>b. ((b - currentMemoryRequest) / currentMemoryRequest) * 100)
                   finalTotalMemoryBytes)
            else [])
         @ (if hasRatioAdjustments \<or> ratioAdjustmentMade then [RatioNote] else [])
         @ (if vpa_cpu vpa = None \<and> vpa_memory vpa = None then [VpaNotYetAvailable] else [])
      else
        let cpuUsage = calculateCurrentUsage cpuSeries;
            memoryUsage = calculateCurrentUsage memorySeries;
            cpuRequest = js_or (res_cpu (requests res)) 100;
            memoryRequest = js_or (res_memory (requests res)) (128 * 1024 * 1024);
            cpuUtilization = (if cpuRequest > 0 then cpuUsage * 1000 / cpuRequest else 0);
            memoryUtilization = (if memoryRequest > 0 then memoryUsage / memoryRequest else 0);
            recommendations =
              (if cpuUtilization < 0.3 then [ReduceCpuRequest]
               else if cpuUtilization > 0.8 then [IncreaseCpuRequest] else [])
              @ (if memoryUtilization < 0.3 then [ReduceMemoryRequest]
                 else if memoryUtilization > 0.8 then [IncreaseMemoryRequest] else [])
        in (if recommendations = [] then [WellOptimized] else recommendations) @ [EnableVpa])"

section \<open>The per-workload pipeline of \<^verbatim>\<open>POST /api/metrics\<close>\<close>

text \<open>
  A workload of the request, and what the upstream calls of one round of the loop give.
  \<^verbatim>\<open>getRunningReplicaCount\<close> and \<^verbatim>\<open>getResourceRequestsFromMonitoring\<close> catch every
  error themselves, so their results are plain values; a \<^verbatim>\<open>getMetricsFromMonitoring\<close>
  call either gives the series or throws (\<open>Inl\<close>, with the message of the error). An empty
  string stands for a missing string property and \<open>0\<close> for a missing limit: the source
  reads them through \<^verbatim>\<open>||\<close> only.
\<close>

record workload =
  w_name :: string
  w_namespace :: string
  w_type :: string
  w_cpuLimit :: real
  w_memoryLimit :: real

record replicaInfo =
  replica_count :: real
  replica_type :: string

record resourceRequests =
  rr_cpuRequest :: real
  rr_memoryRequest :: real
  rr_cpuPerContainer :: "(string \<times> real) list"
  rr_memoryPerContainer :: "(string \<times> real) list"

record upstream =
  up_replicaInfo :: replicaInfo
  up_resourceRequests :: resourceRequests
  up_cpuResponse :: "string + series list"
  up_memoryResponse :: "string + series list"
  up_vpaCpu :: "string + series list"
  up_vpaMemory :: "string + series list"

record vpaDetails =
  cpuPerContainer_d :: "(string \<times> real) list"
  memoryPerContainer_d :: "(string \<times> real option) list"
  totalCpuRecommended :: "real option"
  totalMemoryRecommended :: "real option"

record containerDetails =
  cpuRequestsPerContainer :: "(string \<times> real) list"
  memoryRequestsPerContainer :: "(string \<times> real) list"

record workloadMetrics =
  name :: string
  namespace :: string
  type' :: string
  replicas :: real
  cpuRequest :: real
  memoryRequest :: real
  cpuLimit :: real
  memoryLimit :: real
  cpuUsage :: real
  memoryUsage :: real
  recommendedCPU :: real
  recommendedMemory :: real
  efficiency :: real
  cost :: real
  potentialSavings :: real
  status :: string
  recommendations :: "recommendationLine list"
  platform :: string
  vpaEnabled :: bool
  vpaDetails :: "vpaDetails option"
  containerDetails :: containerDetails

record errorItem =
  err_name :: string
  err_namespace :: string
  err_type :: string
  err_error :: string
  err_status :: string

datatype item = Processed workloadMetrics | Failed errorItem

definition js_orString :: "string \<Rightarrow> string \<Rightarrow> string" where
  "js_orString x d = (if x = [] then d else x)"

definition processWorkload :: "workload \<Rightarrow> upstream \<Rightarrow> string + workloadMetrics" where
  \<comment> \<open>The body of the \<^verbatim>\<open>try\<close> block: \<open>Inl\<close> is the message of the exception it throws.\<close>
  "processWorkload w up =
     (case up_cpuResponse up of
        Inl e \<Rightarrow> Inl e
      | Inr cpuResponse \<Rightarrow>
          (case up_memoryResponse up of
             Inl e \<Rightarrow> Inl e
           | Inr memoryResponse \<Rightarrow>
               let actualReplicas = replica_count (up_replicaInfo up);
                   actualWorkloadType = replica_type (up_replicaInfo up);
                   resourceRequests = up_resourceRequests up;
                   vpa = getVPARecommendations (up_vpaCpu up) (up_vpaMemory up);
                   res = \<lparr> requests = \<lparr> res_cpu = rr_cpuRequest resourceRequests,
                                         res_memory = rr_memoryRequest resourceRequests \<rparr>,
                           limits = Some \<lparr> res_cpu = js_or (w_cpuLimit w) 0,
                                            res_memory = js_or (w_memoryLimit w) 0 \<rparr> \<rparr>
               in Inr \<lparr> name = w_name w,
                        namespace = w_namespace w,
                        type' = js_orString actualWorkloadType (js_orString (w_type w) ''Unknown''),
                        replicas = actualReplicas,
                        cpuRequest = res_cpu (requests res),
                        memoryRequest = res_memory (requests res),
                        cpuLimit = js_or (w_cpuLimit w) 0,
                        memoryLimit = js_or (w_memoryLimit w) 0,
                        cpuUsage = calculateCurrentUsage cpuResponse,
                        memoryUsage = calculateCurrentUsage memoryResponse,
                        recommendedCPU = getRecommendedCPU vpa cpuResponse (res_cpu (requests res)),
                        recommendedMemory =
                          getRecommendedMemory vpa memoryResponse (res_memory (requests res)),
                        efficiency = calculateEfficiency cpuResponse memoryResponse res,
                        cost = calculateCost res actualReplicas,
                        potentialSavings = calculatePotentialSavingsWithVPA vpa res,
                        status = ''running'',
                        recommendations =
                          generateRecommendationsWithVPA vpa cpuResponse memoryResponse res,
                        platform = ''gke'',
                        vpaEnabled = available vpa,
                        vpaDetails =
                          (if available vpa then
                             Some \<lparr> cpuPerContainer_d = cpuPerContainer vpa,
                                    memoryPerContainer_d = memoryPerContainer vpa,
                                    totalCpuRecommended = vpa_cpu vpa,
                                    totalMemoryRecommended = vpa_memory vpa \<rparr>
                           else None),
                        containerDetails =
                          \<lparr> cpuRequestsPerContainer = rr_cpuPerContainer resourceRequests,
                            memoryRequestsPerContainer = rr_memoryPerContainer resourceRequests \<rparr> \<rparr>))"

definition onWorkloadError :: "workload \<Rightarrow> string \<Rightarrow> errorItem" where
  \<comment> \<open>The object the \<^verbatim>\<open>catch\<close> block pushes.\<close>
  "onWorkloadError w message =
     \<lparr> err_name = w_name w,
       err_namespace = w_namespace w,
       err_type = js_orString (w_type w) ''Unknown'',
       err_error = message,
       err_status = ''error'' \<rparr>"

fun metricsLoop :: "(workload \<times> upstream) list \<Rightarrow> item list \<Rightarrow> item list" where
  \<comment> \<open>\<^verbatim>\<open>for (const workload of workloadsList)\<close>, each workload with what its upstream
      calls give; the second argument is \<^verbatim>\<open>metricsData\<close>.\<close>
  "metricsLoop [] metricsData = metricsData"
| "metricsLoop ((w, up) # rest) metricsData =
     metricsLoop rest
       (metricsData @
          [case processWorkload w up of
             Inr processedMetrics \<Rightarrow> Processed processedMetrics
           | Inl message \<Rightarrow> Failed (onWorkloadError w message)])"

definition metricsResponse :: "(workload \<times> upstream) list \<Rightarrow> item list" where
  \<comment> \<open>The \<^verbatim>\<open>workloads\<close> array of the response.\<close>
  "metricsResponse workloadsList = metricsLoop workloadsList []"

definition propertyNames :: "item \<Rightarrow> string list" where
  \<comment> \<open>The property names of the two object literals the loop pushes.\<close>
  "propertyNames it =
     (case it of
        Processed _ \<Rightarrow>
          [''name'', ''namespace'', ''type'', ''replicas'', ''cpuRequest'', ''memoryRequest'',
           ''cpuLimit'', ''memoryLimit'', ''cpuUsage'', ''memoryUsage'', ''recommendedCPU'',
           ''recommendedMemory'', ''efficiency'', ''cost'', ''potentialSavings'', ''status'',
           ''recommendations'', ''platform'', ''vpaEnabled'', ''vpaDetails'', ''containerDetails'']
      | Failed _ \<Rightarrow> [''name'', ''namespace'', ''type'', ''error'', ''status''])"


section \<open>Readings of the specification\<close>

text \<open>
  Two formulas of the specification, written from its words to be compared with the code
  (\<^const>\<open>latestValue_spec\<close> above is the third). The efficiency score of the
  specification takes the two usages and the two requests in the same unit and scores a
  zero request as \<open>100\<close>; its potential savings compare the cost of the current request
  with the cost of the emitted recommendation, one replica each.
\<close>

definition efficiency_spec :: "real \<Rightarrow> real \<Rightarrow> real \<Rightarrow> real \<Rightarrow> real" where
  "efficiency_spec usageCPU requestCPU usageMemory requestMemory =
     Math_round
       (((if requestCPU = 0 then 100 else min 100 (usageCPU / requestCPU * 100)) +
         (if requestMemory = 0 then 100 else min 100 (usageMemory / requestMemory * 100))) / 2)"

definition requestsOf :: "real \<Rightarrow> real \<Rightarrow> resources" where
  \<comment> \<open>A \<^verbatim>\<open>resources\<close> object with \<^verbatim>\<open>requests\<close> only.\<close>
  "requestsOf c m = \<lparr> requests = \<lparr> res_cpu = c, res_memory = m \<rparr>, limits = None \<rparr>"

definition costAtOneReplica :: "real \<Rightarrow> real \<Rightarrow> real" where
  "costAtOneReplica c m = calculateCost (requestsOf c m) 1"

definition potentialSavings_spec :: "workloadMetrics \<Rightarrow> real" where
  "potentialSavings_spec m =
     max 0 (costAtOneReplica (cpuRequest m) (memoryRequest m)
            - costAtOneReplica (recommendedCPU m) (recommendedMemory m))"

definition emittedRatioBound :: "workloadMetrics \<Rightarrow> bool" where
  \<comment> \<open>The ratio bound on the emitted pair: millicores and bytes.\<close>
  "emittedRatioBound m = ratioBound (recommendedCPU m / 1000) (recommendedMemory m)"

definition nonNegativeValues :: "series list \<Rightarrow> bool" where
  "nonNegativeValues timeSeries =
     list_all (\<lambda>s. list_all (\<lambda>p. case doubleValue p of None \<Rightarrow> True | Some v \<Rightarrow> 0 \<le> v)
                      (points s))
       timeSeries"

section \<open>Worked inputs\<close>

definition oneSeries :: "real \<Rightarrow> series list" where
  \<comment> \<open>One series of the container \<^verbatim>\<open>app\<close> with one point.\<close>
  "oneSeries v = [\<lparr> container_name = ''app'',
                    points = [\<lparr> doubleValue = Some v, endTimeSeconds = 1000 \<rparr>] \<rparr>]"

definition staggeredSeries :: "series list" where
  \<comment> \<open>Two pods: the first stopped reporting at second 1000, the second is at 2800.\<close>
  "staggeredSeries =
     [\<lparr> container_name = ''app'',
         points = [\<lparr> doubleValue = Some 0.25, endTimeSeconds = 1000 \<rparr>] \<rparr>,
      \<lparr> container_name = ''app'',
         points = [\<lparr> doubleValue = Some 0.75, endTimeSeconds = 2800 \<rparr>] \<rparr>]"

definition apiWorkload :: workload where
  "apiWorkload = \<lparr> w_name = ''api'', w_namespace = ''default'', w_type = ''Deployment'',
                   w_cpuLimit = 0, w_memoryLimit = 0 \<rparr>"

definition upstreamOf ::
  "real \<Rightarrow> real \<Rightarrow> string + series list \<Rightarrow> string + series list \<Rightarrow>
   string + series list \<Rightarrow> string + series list \<Rightarrow> upstream" where
  \<comment> \<open>One replica, one container \<^verbatim>\<open>app\<close> with the given requests, and the four fetches.\<close>
  "upstreamOf cpuReq memReq cpuFetch memFetch vpaCpuFetch vpaMemFetch =
     \<lparr> up_replicaInfo = \<lparr> replica_count = 1, replica_type = ''Deployment'' \<rparr>,
       up_resourceRequests = \<lparr> rr_cpuRequest = cpuReq, rr_memoryRequest = memReq,
                                rr_cpuPerContainer = [(''app'', cpuReq)],
                                rr_memoryPerContainer = [(''app'', memReq)] \<rparr>,
       up_cpuResponse = cpuFetch,
       up_memoryResponse = memFetch,
       up_vpaCpu = vpaCpuFetch,
       up_vpaMemory = vpaMemFetch \<rparr>"

definition usageOnlyUpstream :: upstream where
  \<comment> \<open>Requests of 1000m and 1 GiB, usage of 0.1 cores and 100 MiB, no autoscaler series.\<close>
  "usageOnlyUpstream =
     upstreamOf 1000 1073741824 (Inr (oneSeries 0.1)) (Inr (oneSeries 104857600)) (Inr []) (Inr [])"

definition heavyCpuUpstream :: upstream where
  \<comment> \<open>As before with a usage of one full core.\<close>
  "heavyCpuUpstream =
     upstreamOf 1000 1073741824 (Inr (oneSeries 1)) (Inr (oneSeries 104857600)) (Inr []) (Inr [])"

definition vpaUpstream :: upstream where
  \<comment> \<open>The autoscaler recommends 0.101 cores and 64 MiB for the container.\<close>
  "vpaUpstream =
     upstreamOf 1000 1073741824 (Inr (oneSeries 0.1)) (Inr (oneSeries 104857600))
       (Inr (oneSeries 0.101)) (Inr (oneSeries 67108864))"

definition smallVpaUpstream :: upstream where
  \<comment> \<open>The autoscaler recommends 0.011 cores and 12 MiB for the container: about 1.07 GiB
      per vCPU, within the bound.\<close>
  "smallVpaUpstream =
     upstreamOf 1000 1073741824 (Inr (oneSeries 0.1)) (Inr (oneSeries 104857600))
       (Inr (oneSeries 0.011)) (Inr (oneSeries 12582912))"

definition timedOutUpstream :: upstream where
  \<comment> \<open>The fetch of the CPU usage throws.\<close>
  "timedOutUpstream =
     upstreamOf 1000 1073741824
       (Inl ''Failed to fetch kubernetes.io/container/cpu/core_usage_time metrics: DEADLINE_EXCEEDED'')
       (Inr (oneSeries 104857600)) (Inr []) (Inr [])"

definition workloadNamed :: "string \<Rightarrow> workload" where
  \<comment> \<open>A workload of the request without \<^verbatim>\<open>type\<close> and limits.\<close>
  "workloadNamed n = \<lparr> w_name = n, w_namespace = ''default'', w_type = '''',
                       w_cpuLimit = 0, w_memoryLimit = 0 \<rparr>"

definition batchOfFive :: "(workload \<times> upstream) list" where
  "batchOfFive =
     [(workloadNamed ''w1'', usageOnlyUpstream),
      (workloadNamed ''w2'', vpaUpstream),
      (workloadNamed ''w3'', timedOutUpstream),
      (workloadNamed ''w4'', heavyCpuUpstream),
      (workloadNamed ''w5'', usageOnlyUpstream)]"

section \<open>Properties of the ratio validation\<close>

lemma validate_low:
  "memoryBytes / (1024 * 1024 * 1024) / cpuCores < 1 \<Longrightarrow>
   validateAndAdjustCPUMemoryRatio cpuCores memoryBytes =
     \<lparr> cpu = cpuCores, memory = cpuCores * 1024 * 1024 * 1024, adjusted = True,
       reason = Some ''Memory increased to maintain minimum 1:1 vCPU:GiB ratio'' \<rparr>"
  by (simp add: validateAndAdjustCPUMemoryRatio_def Let_def)

lemma validate_high:
  "\<not> memoryBytes / (1024 * 1024 * 1024) / cpuCores < 1 \<Longrightarrow>
   memoryBytes / (1024 * 1024 * 1024) / cpuCores > 6.5 \<Longrightarrow>
   validateAndAdjustCPUMemoryRatio cpuCores memoryBytes =
     \<lparr> cpu = memoryBytes / (1024 * 1024 * 1024) / 6.5, memory = memoryBytes, adjusted = True,
       reason = Some ''CPU increased to maintain maximum 1:6.5 vCPU:GiB ratio'' \<rparr>"
  by (simp add: validateAndAdjustCPUMemoryRatio_def Let_def)

lemma validate_unchanged:
  "ratioBound cpuCores memoryBytes \<Longrightarrow>
   validateAndAdjustCPUMemoryRatio cpuCores memoryBytes =
     \<lparr> cpu = cpuCores, memory = memoryBytes, adjusted = False, reason = None \<rparr>"
  by (simp add: validateAndAdjustCPUMemoryRatio_def ratioBound_def gibPerCore_def Let_def)

lemma validate_cases:
  obtains (low) "memoryBytes / (1024 * 1024 * 1024) / cpuCores < 1"
  | (high) "\<not> memoryBytes / (1024 * 1024 * 1024) / cpuCores < 1"
           "memoryBytes / (1024 * 1024 * 1024) / cpuCores > 6.5"
  | (ok) "ratioBound cpuCores memoryBytes"
  unfolding ratioBound_def gibPerCore_def by fastforce

lemma validate_bound:
  assumes "0 < cpuCores"
  shows "ratioBound (cpu (validateAndAdjustCPUMemoryRatio cpuCores memoryBytes))
           (memory (validateAndAdjustCPUMemoryRatio cpuCores memoryBytes))"
proof (rule validate_cases [where cpuCores = cpuCores and memoryBytes = memoryBytes])
  assume low: "memoryBytes / (1024 * 1024 * 1024) / cpuCores < 1"
  with assms show ?thesis
    by (simp add: validate_low ratioBound_def gibPerCore_def)
next
  assume high: "\<not> memoryBytes / (1024 * 1024 * 1024) / cpuCores < 1"
    "memoryBytes / (1024 * 1024 * 1024) / cpuCores > 6.5"
  from high(2) assms have "0 < memoryBytes / (1024 * 1024 * 1024)"
    by (simp add: field_simps)
  with high show ?thesis
    by (simp add: validate_high ratioBound_def gibPerCore_def)
next
  assume "ratioBound cpuCores memoryBytes"
  then show ?thesis
    by (simp add: validate_unchanged)
qed

lemma validate_never_decreases:
  assumes "0 < cpuCores"
  shows "cpuCores \<le> cpu (validateAndAdjustCPUMemoryRatio cpuCores memoryBytes) \<and>
         memoryBytes \<le> memory (validateAndAdjustCPUMemoryRatio cpuCores memoryBytes)"
proof (rule validate_cases [where cpuCores = cpuCores and memoryBytes = memoryBytes])
  assume low: "memoryBytes / (1024 * 1024 * 1024) / cpuCores < 1"
  with assms show ?thesis
    by (simp add: validate_low field_simps)
next
  assume high: "\<not> memoryBytes / (1024 * 1024 * 1024) / cpuCores < 1"
    "memoryBytes / (1024 * 1024 * 1024) / cpuCores > 6.5"
  with assms show ?thesis
    by (simp add: validate_high field_simps)
next
  assume "ratioBound cpuCores memoryBytes"
  then show ?thesis
    by (simp add: validate_unchanged)
qed

text \<open>
  Claim C1. For a positive CPU value and a non-negative memory value, the pair returned by
  \<^const>\<open>validateAndAdjustCPUMemoryRatio\<close> has between 1 and 6.5 GiB per vCPU, both ends
  included; and a pair that is already within the bound is returned as it is, with
  \<^verbatim>\<open>adjusted\<close> false and no reason.
\<close>

theorem ratio_validator_bound_idempotent:
  assumes "0 < cpuCores" and "0 \<le> memoryBytes"
  shows "ratioBound (cpu (validateAndAdjustCPUMemoryRatio cpuCores memoryBytes))
           (memory (validateAndAdjustCPUMemoryRatio cpuCores memoryBytes))
       \<and> (ratioBound cpuCores memoryBytes \<longrightarrow>
            validateAndAdjustCPUMemoryRatio cpuCores memoryBytes =
              \<lparr> cpu = cpuCores, memory = memoryBytes, adjusted = False, reason = None \<rparr>)"
  using validate_bound [OF assms(1), of memoryBytes] validate_unchanged by blast

text \<open>
  Two cores with 1 GiB: the memory is raised to 2 GiB, one GiB per vCPU. Two cores with
  4 GiB are within the bound and come back as they are.
\<close>

theorem ratio_validator_bound_idempotent_witness:
  "validateAndAdjustCPUMemoryRatio 2 1073741824 =
     \<lparr> cpu = 2, memory = 2147483648, adjusted = True,
       reason = Some ''Memory increased to maintain minimum 1:1 vCPU:GiB ratio'' \<rparr>
   \<and> ratioBound 2 2147483648
   \<and> ratioBound 2 4294967296
   \<and> validateAndAdjustCPUMemoryRatio 2 4294967296 =
       \<lparr> cpu = 2, memory = 4294967296, adjusted = False, reason = None \<rparr>"
proof -
  have inside: "ratioBound 2 4294967296"
    by (simp add: ratioBound_def gibPerCore_def)
  from ratio_validator_bound_idempotent [of 2 1073741824]
  have "ratioBound 2 2147483648"
    by (simp add: validate_low)
  moreover from ratio_validator_bound_idempotent [of 2 4294967296] inside
  have "validateAndAdjustCPUMemoryRatio 2 4294967296 =
          \<lparr> cpu = 2, memory = 4294967296, adjusted = False, reason = None \<rparr>"
    by simp
  ultimately show ?thesis
    using inside by (simp add: validate_low)
qed

text \<open>
  Claim C10. For a positive CPU value and a non-negative memory value, neither resource
  comes back smaller than it went in: a ratio out of bound is repaired by raising the
  resource that is short.
\<close>

theorem ratio_validator_never_decreases:
  assumes "0 < cpuCores" and "0 \<le> memoryBytes"
  shows "cpuCores \<le> cpu (validateAndAdjustCPUMemoryRatio cpuCores memoryBytes) \<and>
         memoryBytes \<le> memory (validateAndAdjustCPUMemoryRatio cpuCores memoryBytes)"
  using validate_never_decreases [OF assms(1)] .

text \<open>One core with 8 GiB: the CPU is raised to 16/13 cores, the memory stays.\<close>

theorem ratio_validator_never_decreases_witness:
  "(1::real) \<le> cpu (validateAndAdjustCPUMemoryRatio 1 (8 * 1073741824)) \<and>
   cpu (validateAndAdjustCPUMemoryRatio 1 (8 * 1073741824)) = 16 / 13 \<and>
   memory (validateAndAdjustCPUMemoryRatio 1 (8 * 1073741824)) = 8 * 1073741824"
  using ratio_validator_never_decreases [of 1 "8 * 1073741824"]
  by (simp add: validate_high)

section \<open>Current usage and efficiency\<close>

lemma calculateCurrentUsage_oneSeries: "calculateCurrentUsage (oneSeries v) = v"
  by (simp add: calculateCurrentUsage_def oneSeries_def js_or_def)

lemma calculateCurrentUsage_nonneg:
  "nonNegativeValues timeSeries \<Longrightarrow> 0 \<le> calculateCurrentUsage timeSeries"
  by (auto simp: nonNegativeValues_def calculateCurrentUsage_def js_or_def
      split: list.splits option.splits)

lemma Math_round_nonneg: "0 \<le> x \<Longrightarrow> 0 \<le> Math_round x"
  by (simp add: Math_round_def)

lemma Math_round_le: "x \<le> of_int n \<Longrightarrow> Math_round x \<le> of_int n"
  unfolding Math_round_def by (simp add: floor_le_iff)

lemma Math_round_of_int: "Math_round (of_int n) = of_int n"
  by (simp add: Math_round_def)

text \<open>
  Claim C4, at an input on which the code and the claim part. The set holds two series;
  the most recent point of the set is in the second one (second 2800, value 0.75). The
  specification's reading gives that value; \<^const>\<open>calculateCurrentUsage\<close> returns the first
  point of the first series, 0.25, from second 1000.
\<close>

theorem current_usage_first_point:
  "calculateCurrentUsage staggeredSeries = 0.25 \<and> latestValue_spec staggeredSeries = 0.75"
  by (simp add: calculateCurrentUsage_def latestValue_spec_def staggeredSeries_def js_or_def)

text \<open>
  Claim C5, amended. For non-negative requests, the efficiency score is
  \<open>round((min(100, usageCPU / requestCPU * 100) + min(100, usageMemory / requestMemory * 100)) / 2)\<close>
  with the usage of the first point of each set (cores times 1000 for the CPU) and with a
  zero request replaced by the default of 100 millicores, respectively 128 MiB, before
  the division: a zero request is scored against the default, not as 100.
\<close>

theorem efficiency_formula_with_defaults:
  assumes "0 \<le> res_cpu (requests res)" and "0 \<le> res_memory (requests res)"
  shows "calculateEfficiency cpuSeries memorySeries res =
           efficiency_spec (calculateCurrentUsage cpuSeries * 1000)
             (js_or (res_cpu (requests res)) 100)
             (calculateCurrentUsage memorySeries)
             (js_or (res_memory (requests res)) (128 * 1024 * 1024))"
  using assms
  by (simp add: calculateEfficiency_def efficiency_spec_def js_or_def Let_def)

text \<open>
  A usage of 0.05 cores against 200 millicores and of 64 MiB against no memory request:
  25 and 50 percent, the score is 38.
\<close>

theorem efficiency_formula_with_defaults_witness:
  "calculateEfficiency (oneSeries 0.05) (oneSeries 67108864) (requestsOf 200 0) = 38
   \<and> efficiency_spec 50 200 67108864 (128 * 1024 * 1024) = 38"
  using efficiency_formula_with_defaults [of "requestsOf 200 0" "oneSeries 0.05" "oneSeries 67108864"]
  by (simp add: calculateCurrentUsage_oneSeries requestsOf_def js_or_def efficiency_spec_def
      Math_round_def)

text \<open>
  The claim as it stands fails where both requests are zero: with a usage of 0.05 cores
  and 64 MiB the code scores 50 (against the defaults), the formula of the claim 100.
\<close>

theorem efficiency_zero_request_counterexample:
  "calculateEfficiency (oneSeries 0.05) (oneSeries 67108864) (requestsOf 0 0) = 50
   \<and> efficiency_spec (calculateCurrentUsage (oneSeries 0.05) * 1000) 0
        (calculateCurrentUsage (oneSeries 67108864)) 0 = 100"
  by (simp add: calculateEfficiency_def efficiency_spec_def calculateCurrentUsage_oneSeries
      requestsOf_def js_or_def Math_round_def Let_def)

text \<open>
  Claim C8. With non-negative usage values in both sets and non-negative requests, the
  efficiency score lies between 0 and 100.
\<close>

theorem efficiency_in_range:
  assumes "nonNegativeValues cpuSeries" and "nonNegativeValues memorySeries"
      and "0 \<le> res_cpu (requests res)" and "0 \<le> res_memory (requests res)"
  shows "0 \<le> calculateEfficiency cpuSeries memorySeries res \<and>
         calculateEfficiency cpuSeries memorySeries res \<le> 100"
proof -
  let ?cu = "calculateCurrentUsage cpuSeries" and ?mu = "calculateCurrentUsage memorySeries"
  let ?cr = "js_or (res_cpu (requests res)) 100"
  let ?mr = "js_or (res_memory (requests res)) (128 * 1024 * 1024)"
  let ?ce = "min 100 ((?cu * 1000 / ?cr) * 100)" and ?me = "min 100 ((?mu / ?mr) * 100)"
  have cr: "0 < ?cr" and mr: "0 < ?mr"
    using assms(3,4) by (simp_all add: js_or_def)
  have cu: "0 \<le> ?cu" and mu: "0 \<le> ?mu"
    using assms(1,2) by (simp_all add: calculateCurrentUsage_nonneg)
  have eq: "calculateEfficiency cpuSeries memorySeries res = Math_round ((?ce + ?me) / 2)"
    using cr mr by (simp add: calculateEfficiency_def Let_def)
  have "0 \<le> ?ce" "0 \<le> ?me"
    using cr cu mr mu by simp_all
  then have lo: "0 \<le> (?ce + ?me) / 2"
    by simp
  have "?ce \<le> 100" "?me \<le> 100"
    by simp_all
  then have hi: "(?ce + ?me) / 2 \<le> of_int 100"
    by simp
  show ?thesis
    unfolding eq using Math_round_nonneg [OF lo] Math_round_le [OF hi] by simp
qed

text \<open>A usage of 0.1 cores and 100 MiB against 1000 millicores and 1 GiB scores 10.\<close>

theorem efficiency_in_range_witness:
  "nonNegativeValues (oneSeries 0.1) \<and> nonNegativeValues (oneSeries 104857600)
   \<and> calculateEfficiency (oneSeries 0.1) (oneSeries 104857600) (requestsOf 1000 1073741824) = 10
   \<and> (0::real) \<le> 10 \<and> (10::real) \<le> 100"
  using efficiency_in_range [of "oneSeries 0.1" "oneSeries 104857600" "requestsOf 1000 1073741824"]
  by (simp add: nonNegativeValues_def oneSeries_def requestsOf_def calculateEfficiency_def
      calculateCurrentUsage_def js_or_def Math_round_def Let_def)

section \<open>The pipeline: what a processed workload carries\<close>

lemma processWorkload_succeeds:
  "up_cpuResponse up = Inr c \<Longrightarrow> up_memoryResponse up = Inr mm \<Longrightarrow>
   processWorkload w up = Inr (projr (processWorkload w up))"
  by (simp add: processWorkload_def Let_def)

lemma processWorkload_fails_cpu:
  "up_cpuResponse up = Inl e \<Longrightarrow> processWorkload w up = Inl e"
  by (simp add: processWorkload_def)

lemma processWorkload_InrD:
  assumes "processWorkload w up = Inr m"
  shows "\<exists>cpuResponse memoryResponse.
           up_cpuResponse up = Inr cpuResponse \<and> up_memoryResponse up = Inr memoryResponse \<and>
           cpuRequest m = rr_cpuRequest (up_resourceRequests up) \<and>
           memoryRequest m = rr_memoryRequest (up_resourceRequests up) \<and>
           recommendedCPU m =
             getRecommendedCPU (getVPARecommendations (up_vpaCpu up) (up_vpaMemory up))
               cpuResponse (rr_cpuRequest (up_resourceRequests up)) \<and>
           recommendedMemory m =
             getRecommendedMemory (getVPARecommendations (up_vpaCpu up) (up_vpaMemory up))
               memoryResponse (rr_memoryRequest (up_resourceRequests up)) \<and>
           vpaEnabled m = available (getVPARecommendations (up_vpaCpu up) (up_vpaMemory up)) \<and>
           potentialSavings m =
             calculatePotentialSavingsWithVPA
               (getVPARecommendations (up_vpaCpu up) (up_vpaMemory up))
               \<lparr> requests = \<lparr> res_cpu = rr_cpuRequest (up_resourceRequests up),
                               res_memory = rr_memoryRequest (up_resourceRequests up) \<rparr>,
                 limits = Some \<lparr> res_cpu = js_or (w_cpuLimit w) 0,
                                  res_memory = js_or (w_memoryLimit w) 0 \<rparr> \<rparr> \<and>
           recommendations m =
             generateRecommendationsWithVPA
               (getVPARecommendations (up_vpaCpu up) (up_vpaMemory up))
               cpuResponse memoryResponse
               \<lparr> requests = \<lparr> res_cpu = rr_cpuRequest (up_resourceRequests up),
                               res_memory = rr_memoryRequest (up_resourceRequests up) \<rparr>,
                 limits = Some \<lparr> res_cpu = js_or (w_cpuLimit w) 0,
                                  res_memory = js_or (w_memoryLimit w) 0 \<rparr> \<rparr>"
  using assms
  by (auto simp: processWorkload_def Let_def split: sum.splits)

subsection \<open>Evaluating the worked inputs\<close>

lemma oneSeries_length: "length (oneSeries v) = 1"
  by (simp add: oneSeries_def)

lemma extract_oneSeries: "extractPerContainerRecommendations (oneSeries v) = [(''app'', v)]"
  by (simp add: extractPerContainerRecommendations_def oneSeries_def recordSeries_def
      recordPoint_def)

lemma latest_oneSeries: "extractLatestRecommendation (oneSeries v) = Some v"
  by (simp add: extractLatestRecommendation_def extract_oneSeries)

lemma getVPA_none:
  "getVPARecommendations (Inr []) (Inr []) =
     \<lparr> vpa_cpu = None, vpa_memory = None, cpuPerContainer = [], memoryPerContainer = [],
       available = False, ratioAdjustments_total = None, ratioAdjustments_perContainer = [] \<rparr>"
  by (simp add: getVPARecommendations_def extractLatestRecommendation_def
      extractPerContainerRecommendations_def adjustTotals_def Let_def)

lemma getVPA_oneSeries_low:
  assumes "c \<noteq> 0" and "b \<noteq> 0" and "b / (1024 * 1024 * 1024) / c < 1"
  shows "getVPARecommendations (Inr (oneSeries c)) (Inr (oneSeries b)) =
     \<lparr> vpa_cpu = Some c, vpa_memory = Some (c * 1024 * 1024 * 1024),
       cpuPerContainer = [(''app'', c)],
       memoryPerContainer = [(''app'', Some (c * 1024 * 1024 * 1024))],
       available = True,
       ratioAdjustments_total = Some ''Memory increased to maintain minimum 1:1 vCPU:GiB ratio'',
       ratioAdjustments_perContainer =
         [(''app'', ''Memory increased to maintain minimum 1:1 vCPU:GiB ratio'')] \<rparr>"
  using assms
  by (simp add: getVPARecommendations_def latest_oneSeries extract_oneSeries adjustTotals_def
      adjustContainer_def validate_low Let_def oneSeries_length)

lemma getVPA_oneSeries_ok:
  assumes "c \<noteq> 0" and "b \<noteq> 0" and "ratioBound c b"
  shows "getVPARecommendations (Inr (oneSeries c)) (Inr (oneSeries b)) =
     \<lparr> vpa_cpu = Some c, vpa_memory = Some b,
       cpuPerContainer = [(''app'', c)],
       memoryPerContainer = [(''app'', Some b)],
       available = True,
       ratioAdjustments_total = None,
       ratioAdjustments_perContainer = [] \<rparr>"
  using assms
  by (simp add: getVPARecommendations_def latest_oneSeries extract_oneSeries adjustTotals_def
      adjustContainer_def validate_unchanged Let_def oneSeries_length)

lemma calc_cpu_one:
  "v \<noteq> 0 \<Longrightarrow> calculateRecommendation (oneSeries v) Cpu r = roundCpuMillicores (v * 1.15 * 1000)"
  by (simp add: calculateRecommendation_def oneSeries_def collectValues_def Let_def)

lemma calc_mem_one:
  "v \<noteq> 0 \<Longrightarrow> calculateRecommendation (oneSeries v) Memory r = roundMemoryBytes (v * 1.2)"
  by (simp add: calculateRecommendation_def oneSeries_def collectValues_def Let_def)

lemma usageOnly_ok:
  "processWorkload apiWorkload usageOnlyUpstream =
     Inr (projr (processWorkload apiWorkload usageOnlyUpstream))"
  by (rule processWorkload_succeeds) (simp_all add: usageOnlyUpstream_def upstreamOf_def)

lemma usageOnly_metrics:
  "recommendedCPU (projr (processWorkload apiWorkload usageOnlyUpstream)) = 120 \<and>
   recommendedMemory (projr (processWorkload apiWorkload usageOnlyUpstream)) = 134217728 \<and>
   cpuRequest (projr (processWorkload apiWorkload usageOnlyUpstream)) = 1000 \<and>
   memoryRequest (projr (processWorkload apiWorkload usageOnlyUpstream)) = 1073741824 \<and>
   potentialSavings (projr (processWorkload apiWorkload usageOnlyUpstream)) = 0"
  using processWorkload_InrD [OF usageOnly_ok]
  by (simp add: usageOnlyUpstream_def upstreamOf_def getVPA_none getRecommendedCPU_def
      getRecommendedMemory_def calc_cpu_one calc_mem_one roundCpuMillicores_def
      roundMemoryBytes_def mebibyte_def Math_ceil_def calculatePotentialSavingsWithVPA_def
      optimizedResources_def calculateCost_def js_or_def Math_round_def Let_def)

lemma heavyCpu_ok:
  "processWorkload apiWorkload heavyCpuUpstream =
     Inr (projr (processWorkload apiWorkload heavyCpuUpstream))"
  by (rule processWorkload_succeeds) (simp_all add: heavyCpuUpstream_def upstreamOf_def)

lemma heavyCpu_metrics:
  "recommendedCPU (projr (processWorkload apiWorkload heavyCpuUpstream)) = 1150 \<and>
   recommendedMemory (projr (processWorkload apiWorkload heavyCpuUpstream)) = 134217728"
  using processWorkload_InrD [OF heavyCpu_ok]
  by (simp add: heavyCpuUpstream_def upstreamOf_def getVPA_none getRecommendedCPU_def
      getRecommendedMemory_def calc_cpu_one calc_mem_one roundCpuMillicores_def
      roundMemoryBytes_def mebibyte_def Math_ceil_def)

lemma vpaUpstream_ok:
  "processWorkload apiWorkload vpaUpstream = Inr (projr (processWorkload apiWorkload vpaUpstream))"
  by (rule processWorkload_succeeds) (simp_all add: vpaUpstream_def upstreamOf_def)

lemma vpaUpstream_metrics:
  "recommendedCPU (projr (processWorkload apiWorkload vpaUpstream)) = 110 \<and>
   recommendedMemory (projr (processWorkload apiWorkload vpaUpstream)) = 117440512 \<and>
   cpuRequest (projr (processWorkload apiWorkload vpaUpstream)) = 1000 \<and>
   memoryRequest (projr (processWorkload apiWorkload vpaUpstream)) = 1073741824 \<and>
   vpaEnabled (projr (processWorkload apiWorkload vpaUpstream)) \<and>
   potentialSavings (projr (processWorkload apiWorkload vpaUpstream)) = 23.2"
  using processWorkload_InrD [OF vpaUpstream_ok]
  by (simp add: vpaUpstream_def upstreamOf_def getVPA_oneSeries_low getRecommendedCPU_def
      getRecommendedMemory_def roundCpuMillicores_def
      roundMemoryBytes_def mebibyte_def Math_ceil_def calculatePotentialSavingsWithVPA_def
      optimizedResources_def calculateCost_def js_or_def Math_round_def Let_def)

subsection \<open>The totals of the autoscaler\<close>

lemma extractLatest_nonempty:
  "extractLatestRecommendation timeSeries = Some v \<Longrightarrow> 0 < length timeSeries"
  by (cases timeSeries)
     (simp_all add: extractLatestRecommendation_def extractPerContainerRecommendations_def)

lemma getVPA_totals:
  assumes "extractLatestRecommendation cpuRecommendations = Some c" and "c \<noteq> 0"
      and "extractLatestRecommendation memoryRecommendations = Some b" and "b \<noteq> 0"
  shows "available (getVPARecommendations (Inr cpuRecommendations) (Inr memoryRecommendations))"
    and "vpa_cpu (getVPARecommendations (Inr cpuRecommendations) (Inr memoryRecommendations))
           = Some (cpu (validateAndAdjustCPUMemoryRatio c b))"
    and "vpa_memory (getVPARecommendations (Inr cpuRecommendations) (Inr memoryRecommendations))
           = Some (memory (validateAndAdjustCPUMemoryRatio c b))"
  using assms extractLatest_nonempty [OF assms(1)]
  by (simp_all add: getVPARecommendations_def adjustTotals_def Let_def)

section \<open>Cost and potential savings\<close>

lemma calculateCost_hundredths: "\<exists>n. calculateCost res k = of_int n / 100"
  by (auto simp: calculateCost_def Math_round_def Let_def)

lemma savings_exact:
  "calculatePotentialSavingsWithVPA vpa res =
     max 0 (calculateCost res 1 - calculateCost (optimizedResources vpa res) 1)"
proof -
  obtain a where a: "calculateCost res 1 = of_int a / 100"
    using calculateCost_hundredths by blast
  obtain b where b: "calculateCost (optimizedResources vpa res) 1 = of_int b / 100"
    using calculateCost_hundredths by blast
  have "max 0 (real_of_int a / 100 - of_int b / 100) * 100 = of_int (max 0 (a - b))"
    by (simp add: max_def field_simps)
  then show ?thesis
    by (simp add: calculatePotentialSavingsWithVPA_def Let_def a b Math_round_of_int
        del: of_int_max)
qed

lemma js_or_js_or: "js_or (js_or x d) d = js_or x d"
  by (simp add: js_or_def)

lemma cost_requests_only:
  "requests r = requests r' \<Longrightarrow> calculateCost r k = calculateCost r' k"
  by (simp add: calculateCost_def)

lemma optimized_requests_only:
  assumes "requests r = requests r'"
  shows "requests (optimizedResources vpa r) = requests (optimizedResources vpa r')"
  unfolding optimizedResources_def assms by (rule refl)

lemma optimized_unavailable:
  "\<not> available vpa \<Longrightarrow> calculateCost (optimizedResources vpa res) k = calculateCost res k"
  by (simp add: optimizedResources_def calculateCost_def js_or_js_or)

lemma optimized_available:
  "available vpa \<Longrightarrow> vpa_cpu vpa = Some c \<Longrightarrow> c \<noteq> 0 \<Longrightarrow> vpa_memory vpa = Some b \<Longrightarrow> b \<noteq> 0 \<Longrightarrow>
   calculateCost (optimizedResources vpa res) k =
     calculateCost (requestsOf (Math_round (c * 1000)) (Math_round b)) k"
  by (simp add: optimizedResources_def calculateCost_def requestsOf_def)

lemma savings_unavailable: "\<not> available vpa \<Longrightarrow> calculatePotentialSavingsWithVPA vpa res = 0"
  by (simp add: savings_exact optimized_unavailable)

lemma savings_nonneg: "0 \<le> calculatePotentialSavingsWithVPA vpa res"
  by (simp add: savings_exact)

text \<open>
  Claim C6, amended. For a processed workload, \<open>potentialSavings\<close> is
  \<open>max(0, cost(currentRequest) - cost(optimized))\<close> with both costs at one replica (the
  last rounding to two decimals changes nothing), where \<open>optimized\<close> is what
  \<^const>\<open>optimizedResources\<close> builds. Without autoscaler data it is the current request
  itself, so that the savings are \<open>0\<close>. With autoscaler data it is made of the totals
  \<^verbatim>\<open>cpu\<close> and \<^verbatim>\<open>memory\<close> that \<^const>\<open>getVPARecommendations\<close> returns, each rounded to the
  nearest millicore and byte, a \<^verbatim>\<open>null\<close> or zero one replaced by the current request; when
  the per-container sums of both series are positive, those returned totals are the sums
  after the ratio validation. It is not the emitted recommendation, which is rounded up
  to 10 millicores and 16 MiB.
\<close>

theorem potential_savings_formula:
  assumes "processWorkload w up = Inr m"
  shows "potentialSavings m =
           max 0 (costAtOneReplica (cpuRequest m) (memoryRequest m)
                  - calculateCost
                      (optimizedResources (getVPARecommendations (up_vpaCpu up) (up_vpaMemory up))
                         (requestsOf (cpuRequest m) (memoryRequest m))) 1)
       \<and> (\<not> vpaEnabled m \<longrightarrow> potentialSavings m = 0)
       \<and> (\<forall>c b. vpaEnabled m
              \<and> vpa_cpu (getVPARecommendations (up_vpaCpu up) (up_vpaMemory up)) = Some c \<and> c \<noteq> 0
              \<and> vpa_memory (getVPARecommendations (up_vpaCpu up) (up_vpaMemory up)) = Some b \<and> b \<noteq> 0
            \<longrightarrow> potentialSavings m =
                  max 0 (costAtOneReplica (cpuRequest m) (memoryRequest m)
                         - costAtOneReplica (Math_round (c * 1000)) (Math_round b)))
       \<and> (\<forall>cpuRecommendations memoryRecommendations c b.
              up_vpaCpu up = Inr cpuRecommendations
              \<and> up_vpaMemory up = Inr memoryRecommendations
              \<and> extractLatestRecommendation cpuRecommendations = Some c \<and> 0 < c
              \<and> extractLatestRecommendation memoryRecommendations = Some b \<and> 0 < b
            \<longrightarrow> potentialSavings m =
                  max 0 (costAtOneReplica (cpuRequest m) (memoryRequest m)
                         - costAtOneReplica
                             (Math_round (cpu (validateAndAdjustCPUMemoryRatio c b) * 1000))
                             (Math_round (memory (validateAndAdjustCPUMemoryRatio c b)))))"
proof -
  let ?vpa = "getVPARecommendations (up_vpaCpu up) (up_vpaMemory up)"
  let ?res = "\<lparr> requests = \<lparr> res_cpu = rr_cpuRequest (up_resourceRequests up),
                               res_memory = rr_memoryRequest (up_resourceRequests up) \<rparr>,
                 limits = Some \<lparr> res_cpu = js_or (w_cpuLimit w) 0,
                                  res_memory = js_or (w_memoryLimit w) 0 \<rparr> \<rparr>"
  let ?cur = "requestsOf (cpuRequest m) (memoryRequest m)"
  from processWorkload_InrD [OF assms]
  have c: "cpuRequest m = rr_cpuRequest (up_resourceRequests up)"
    and mm: "memoryRequest m = rr_memoryRequest (up_resourceRequests up)"
    and en: "vpaEnabled m = available ?vpa"
    and ps: "potentialSavings m = calculatePotentialSavingsWithVPA ?vpa ?res"
    by blast+
  have rq: "requests ?res = requests ?cur"
    by (simp add: requestsOf_def c mm)
  have cur: "calculateCost ?res 1 = costAtOneReplica (cpuRequest m) (memoryRequest m)"
    unfolding costAtOneReplica_def by (rule cost_requests_only [OF rq])
  have opt: "calculateCost (optimizedResources ?vpa ?res) 1 =
      calculateCost (optimizedResources ?vpa ?cur) 1"
    by (rule cost_requests_only [OF optimized_requests_only [OF rq]])
  have general: "potentialSavings m =
      max 0 (costAtOneReplica (cpuRequest m) (memoryRequest m)
             - calculateCost (optimizedResources ?vpa ?cur) 1)"
    by (simp add: ps savings_exact cur opt)
  have fallback: "\<not> vpaEnabled m \<longrightarrow> potentialSavings m = 0"
    by (simp add: ps en savings_unavailable)
  have totals: "\<And>c b. vpaEnabled m \<Longrightarrow> vpa_cpu ?vpa = Some c \<Longrightarrow> c \<noteq> 0 \<Longrightarrow>
      vpa_memory ?vpa = Some b \<Longrightarrow> b \<noteq> 0 \<Longrightarrow>
      potentialSavings m =
        max 0 (costAtOneReplica (cpuRequest m) (memoryRequest m)
               - costAtOneReplica (Math_round (c * 1000)) (Math_round b))"
    unfolding general costAtOneReplica_def
    by (simp add: en optimized_available)
  have validated: "\<And>cpuRecommendations memoryRecommendations c b.
      up_vpaCpu up = Inr cpuRecommendations \<Longrightarrow>
      up_vpaMemory up = Inr memoryRecommendations \<Longrightarrow>
      extractLatestRecommendation cpuRecommendations = Some c \<Longrightarrow> 0 < c \<Longrightarrow>
      extractLatestRecommendation memoryRecommendations = Some b \<Longrightarrow> 0 < b \<Longrightarrow>
      potentialSavings m =
        max 0 (costAtOneReplica (cpuRequest m) (memoryRequest m)
               - costAtOneReplica
                   (Math_round (cpu (validateAndAdjustCPUMemoryRatio c b) * 1000))
                   (Math_round (memory (validateAndAdjustCPUMemoryRatio c b))))"
  proof -
    fix cpuRecommendations memoryRecommendations c b
    assume fetch: "up_vpaCpu up = Inr cpuRecommendations"
        "up_vpaMemory up = Inr memoryRecommendations"
      and lc: "extractLatestRecommendation cpuRecommendations = Some c" and pc: "0 < c"
      and lb: "extractLatestRecommendation memoryRecommendations = Some b" and pb: "0 < b"
    let ?v = "validateAndAdjustCPUMemoryRatio c b"
    have nz: "c \<noteq> 0" "b \<noteq> 0"
      using pc pb by simp_all
    note t = getVPA_totals [OF lc nz(1) lb nz(2)]
    from validate_never_decreases [OF pc, of b] pc pb
    have pos: "cpu ?v \<noteq> 0" "memory ?v \<noteq> 0"
      by auto
    show "potentialSavings m =
        max 0 (costAtOneReplica (cpuRequest m) (memoryRequest m)
               - costAtOneReplica (Math_round (cpu ?v * 1000)) (Math_round (memory ?v)))"
    proof (rule totals)
      show "vpaEnabled m"
        using t(1) by (simp add: en fetch)
      show "vpa_cpu ?vpa = Some (cpu ?v)"
        using t(2) by (simp add: fetch)
      show "vpa_memory ?vpa = Some (memory ?v)"
        using t(3) by (simp add: fetch)
    qed (rule pos)+
  qed
  from general fallback totals validated show ?thesis
    by blast
qed

text \<open>
  The series of the autoscaler sum to 0.101 cores and 64 MiB; the ratio validation raises
  the memory to 0.101 GiB; against a request of 1000 millicores and 1 GiB the savings are
  25.81 minus 2.61, that is 23.20.
\<close>

theorem potential_savings_formula_witness:
  "processWorkload apiWorkload vpaUpstream = Inr (projr (processWorkload apiWorkload vpaUpstream))
   \<and> validateAndAdjustCPUMemoryRatio (101 / 1000) 67108864 =
       \<lparr> cpu = 101 / 1000, memory = 101 / 1000 * 1024 * 1024 * 1024, adjusted = True,
         reason = Some ''Memory increased to maintain minimum 1:1 vCPU:GiB ratio'' \<rparr>
   \<and> potentialSavings (projr (processWorkload apiWorkload vpaUpstream)) = 23.2"
proof -
  let ?m = "projr (processWorkload apiWorkload vpaUpstream)"
  let ?c = "101 / 1000 :: real" and ?b = "67108864 :: real"
  have up: "up_vpaCpu vpaUpstream = Inr (oneSeries ?c)"
      "up_vpaMemory vpaUpstream = Inr (oneSeries ?b)"
    by (simp_all add: vpaUpstream_def upstreamOf_def)
  have v: "validateAndAdjustCPUMemoryRatio ?c ?b =
      \<lparr> cpu = ?c, memory = ?c * 1024 * 1024 * 1024, adjusted = True,
        reason = Some ''Memory increased to maintain minimum 1:1 vCPU:GiB ratio'' \<rparr>"
    by (simp add: validate_low)
  have cur: "costAtOneReplica 1000 1073741824 = 2581 / 100"
    by (simp add: costAtOneReplica_def requestsOf_def calculateCost_def js_or_def Math_round_def
        Let_def)
  have opt: "costAtOneReplica (Math_round (?c * 1000)) (Math_round (?c * 1024 * 1024 * 1024))
               = 261 / 100"
    by (simp add: costAtOneReplica_def requestsOf_def calculateCost_def js_or_def Math_round_def
        Let_def)
  have rq: "cpuRequest ?m = 1000" "memoryRequest ?m = 1073741824"
    using vpaUpstream_metrics by simp_all
  from potential_savings_formula [OF vpaUpstream_ok]
  have "up_vpaCpu vpaUpstream = Inr (oneSeries ?c)
        \<and> up_vpaMemory vpaUpstream = Inr (oneSeries ?b)
        \<and> extractLatestRecommendation (oneSeries ?c) = Some ?c \<and> 0 < ?c
        \<and> extractLatestRecommendation (oneSeries ?b) = Some ?b \<and> 0 < ?b
        \<longrightarrow> potentialSavings ?m =
              max 0 (costAtOneReplica (cpuRequest ?m) (memoryRequest ?m)
                     - costAtOneReplica
                         (Math_round (cpu (validateAndAdjustCPUMemoryRatio ?c ?b) * 1000))
                         (Math_round (memory (validateAndAdjustCPUMemoryRatio ?c ?b))))"
    by blast
  with up have "potentialSavings ?m =
      max 0 (costAtOneReplica (cpuRequest ?m) (memoryRequest ?m)
             - costAtOneReplica
                 (Math_round (cpu (validateAndAdjustCPUMemoryRatio ?c ?b) * 1000))
                 (Math_round (memory (validateAndAdjustCPUMemoryRatio ?c ?b))))"
    by (simp add: latest_oneSeries)
  then have "potentialSavings ?m = 23.2"
    unfolding v rq cur ratioValidation.select_convs opt by simp
  with vpaUpstream_ok v show ?thesis
    by simp
qed

text \<open>
  The claim as it stands fails on the usage-fallback path: the emitted recommendation is
  120 millicores and 128 MiB against a request of 1000 millicores and 1 GiB, the formula
  of the claim gives 22.70, and the code reports \<open>0\<close>.
\<close>

theorem savings_not_from_recommendation_counterexample:
  "potentialSavings (projr (processWorkload apiWorkload usageOnlyUpstream)) = 0 \<and>
   potentialSavings_spec (projr (processWorkload apiWorkload usageOnlyUpstream)) = 22.7"
  using usageOnly_metrics
  by (simp add: potentialSavings_spec_def costAtOneReplica_def requestsOf_def calculateCost_def
      js_or_def Math_round_def Let_def)

text \<open>
  Claim C7. Whatever the autoscaler data, the requests and the usage, the
  \<open>potentialSavings\<close> of a processed workload is not negative.
\<close>

theorem potential_savings_nonneg:
  assumes "processWorkload w up = Inr m"
  shows "0 \<le> potentialSavings m"
  using processWorkload_InrD [OF assms] savings_nonneg by auto

text \<open>On the usage-fallback input the savings are \<open>0\<close>.\<close>

theorem potential_savings_nonneg_witness:
  "processWorkload apiWorkload usageOnlyUpstream =
     Inr (projr (processWorkload apiWorkload usageOnlyUpstream))
   \<and> potentialSavings (projr (processWorkload apiWorkload usageOnlyUpstream)) = 0"
  using potential_savings_nonneg [OF usageOnly_ok] usageOnly_ok usageOnly_metrics
  by simp

section \<open>The emitted recommendation and the ratio bound\<close>

text \<open>
  Claim C2, amended. For a processed workload whose autoscaler series give a positive CPU
  total and a positive memory total, \<open>recommendedCPU\<close> and \<open>recommendedMemory\<close> are those
  totals after the ratio validation, which satisfy the bound of 1 to 6.5 GiB per vCPU,
  then converted and rounded: the CPU to the nearest millicore and up to a multiple of 10
  (at least 10), the memory to the nearest byte and up to a multiple of 16 MiB (at least
  16 MiB). The bound is stated for the validated totals, before that rounding.
\<close>

theorem recommended_pair_from_validated_totals:
  assumes "processWorkload w up = Inr m"
      and "up_vpaCpu up = Inr cpuRecommendations"
      and "up_vpaMemory up = Inr memoryRecommendations"
      and "extractLatestRecommendation cpuRecommendations = Some c" and "0 < c"
      and "extractLatestRecommendation memoryRecommendations = Some b" and "0 < b"
  shows "ratioBound (cpu (validateAndAdjustCPUMemoryRatio c b))
           (memory (validateAndAdjustCPUMemoryRatio c b))
       \<and> recommendedCPU m =
           roundCpuMillicores (Math_round (cpu (validateAndAdjustCPUMemoryRatio c b) * 1000))
       \<and> recommendedMemory m =
           roundMemoryBytes (Math_round (memory (validateAndAdjustCPUMemoryRatio c b)))"
proof -
  have nz: "c \<noteq> 0" "b \<noteq> 0"
    using assms(5,7) by simp_all
  note vpa = getVPA_totals [OF assms(4) nz(1) assms(6) nz(2)]
  from processWorkload_InrD [OF assms(1)] vpa
  have "recommendedCPU m =
          roundCpuMillicores (Math_round (cpu (validateAndAdjustCPUMemoryRatio c b) * 1000))"
    and "recommendedMemory m =
          roundMemoryBytes (Math_round (memory (validateAndAdjustCPUMemoryRatio c b)))"
    by (auto simp: assms(2,3) getRecommendedCPU_def getRecommendedMemory_def Let_def)
  with validate_bound [OF assms(5), of b] show ?thesis
    by simp
qed

text \<open>
  The autoscaler totals of 0.101 cores and 64 MiB: the validation raises the memory to
  0.101 GiB, the emitted pair is 110 millicores and 112 MiB.
\<close>

theorem recommended_pair_from_validated_totals_witness:
  "processWorkload apiWorkload vpaUpstream = Inr (projr (processWorkload apiWorkload vpaUpstream))
   \<and> ratioBound (101 / 1000) (101 / 1000 * 1024 * 1024 * 1024)
   \<and> recommendedCPU (projr (processWorkload apiWorkload vpaUpstream)) = 110
   \<and> recommendedMemory (projr (processWorkload apiWorkload vpaUpstream)) = 117440512"
proof -
  let ?c = "101 / 1000 :: real" and ?b = "67108864 :: real"
  have up: "up_vpaCpu vpaUpstream = Inr (oneSeries ?c)" "up_vpaMemory vpaUpstream = Inr (oneSeries ?b)"
    by (simp_all add: vpaUpstream_def upstreamOf_def)
  have v: "validateAndAdjustCPUMemoryRatio ?c ?b =
      \<lparr> cpu = ?c, memory = ?c * 1024 * 1024 * 1024, adjusted = True,
        reason = Some ''Memory increased to maintain minimum 1:1 vCPU:GiB ratio'' \<rparr>"
    by (simp add: validate_low)
  from recommended_pair_from_validated_totals
         [OF vpaUpstream_ok up latest_oneSeries _ latest_oneSeries]
  have "ratioBound (cpu (validateAndAdjustCPUMemoryRatio ?c ?b))
          (memory (validateAndAdjustCPUMemoryRatio ?c ?b))
      \<and> recommendedCPU (projr (processWorkload apiWorkload vpaUpstream)) =
          roundCpuMillicores (Math_round (cpu (validateAndAdjustCPUMemoryRatio ?c ?b) * 1000))
      \<and> recommendedMemory (projr (processWorkload apiWorkload vpaUpstream)) =
          roundMemoryBytes (Math_round (memory (validateAndAdjustCPUMemoryRatio ?c ?b)))"
    by simp
  then show ?thesis
    unfolding v using vpaUpstream_ok
    by (simp add: roundCpuMillicores_def roundMemoryBytes_def mebibyte_def Math_ceil_def
        Math_round_def)
qed

text \<open>
  The claim as it stands fails on both paths. Without autoscaler data, a usage of one
  core and 100 MiB gives 1150 millicores and 128 MiB, about 0.11 GiB per vCPU: the
  fallback validates no ratio. With the autoscaler totals above, the rounding after the
  validation gives 110 millicores and 112 MiB, about 0.994 GiB per vCPU.
\<close>

theorem emitted_pair_ratio_counterexample:
  "processWorkload apiWorkload heavyCpuUpstream =
     Inr (projr (processWorkload apiWorkload heavyCpuUpstream))
   \<and> \<not> emittedRatioBound (projr (processWorkload apiWorkload heavyCpuUpstream))
   \<and> processWorkload apiWorkload vpaUpstream =
       Inr (projr (processWorkload apiWorkload vpaUpstream))
   \<and> \<not> emittedRatioBound (projr (processWorkload apiWorkload vpaUpstream))"
  using heavyCpu_ok heavyCpu_metrics vpaUpstream_ok vpaUpstream_metrics
  by (simp add: emittedRatioBound_def ratioBound_def gibPerCore_def)

section \<open>The second validation of the totals in the recommendation text\<close>

lemma validateTotals_unadjusted:
  "validateTotals totalCpu totalMemory = (totalCpu, totalMemory, False)"
  by (simp add: validateTotals_def adjustmentReason_def truthyString_def Let_def
      split: option.splits)

lemma smallVpa_ok:
  "processWorkload apiWorkload smallVpaUpstream =
     Inr (projr (processWorkload apiWorkload smallVpaUpstream))"
  by (rule processWorkload_succeeds) (simp_all add: smallVpaUpstream_def upstreamOf_def)

lemma smallVpa_lines:
  "generateRecommendationsWithVPA
     \<lparr> vpa_cpu = Some (11 / 1000), vpa_memory = Some 12582912,
       cpuPerContainer = [(''app'', 11 / 1000)],
       memoryPerContainer = [(''app'', Some 12582912)],
       available = True,
       ratioAdjustments_total = None,
       ratioAdjustments_perContainer = [] \<rparr>
     cpuSeries memorySeries
     \<lparr> requests = \<lparr> res_cpu = 1000, res_memory = 1073741824 \<rparr>, limits = l \<rparr> =
   [CpuHeading, CpuContainer ''app'' 20, CpuTotal 20 1000,
    MemoryHeading, MemoryContainer ''app'' (Some 16), MemoryTotal (Some 16) 1024,
    SuggestCpu Reduce 98, SuggestMemory Reduce 98]"
  apply (simp add: generateRecommendationsWithVPA_def Let_def validateTotals_unadjusted
      truthyString_def js_or_def)
  apply (simp add: roundCpuMillicores_def Math_round_def Math_ceil_def)
  apply (simp add: roundMemoryBytes_def mebibyte_def Math_ceil_def)
  apply (simp add: suggestion_def Math_round_def)
  done

text \<open>
  Claim C3, at an input on which the code and the claim part. The autoscaler recommends
  0.011 cores and 12 MiB for the one container, within the bound, so nothing is adjusted
  upstream. Rounded, the container and the totals are 20 millicores and 16 MiB, which is
  0.78 GiB per vCPU: the second validation raises the memory to 0.02 GiB, 32 MiB once
  rounded. The text reports a total of 16 MiB and carries no ratio note: the code tests
  \<^verbatim>\<open>ratioValidation.adjustmentReason\<close>, a property the validator's result does not have.
\<close>

theorem totals_second_pass_ignored:
  "recommendations (projr (processWorkload apiWorkload smallVpaUpstream)) =
     [CpuHeading, CpuContainer ''app'' 20, CpuTotal 20 1000,
      MemoryHeading, MemoryContainer ''app'' (Some 16), MemoryTotal (Some 16) 1024,
      SuggestCpu Reduce 98, SuggestMemory Reduce 98]
   \<and> validateAndAdjustCPUMemoryRatio (20 / 1000) 16777216 =
       \<lparr> cpu = 20 / 1000, memory = 20 / 1000 * 1024 * 1024 * 1024, adjusted = True,
         reason = Some ''Memory increased to maintain minimum 1:1 vCPU:GiB ratio'' \<rparr>
   \<and> roundMemoryBytes (20 / 1000 * 1024 * 1024 * 1024) = 33554432"
proof -
  have lines: "recommendations (projr (processWorkload apiWorkload smallVpaUpstream)) =
     [CpuHeading, CpuContainer ''app'' 20, CpuTotal 20 1000,
      MemoryHeading, MemoryContainer ''app'' (Some 16), MemoryTotal (Some 16) 1024,
      SuggestCpu Reduce 98, SuggestMemory Reduce 98]"
    using processWorkload_InrD [OF smallVpa_ok]
    by (simp add: smallVpaUpstream_def upstreamOf_def getVPA_oneSeries_ok ratioBound_def
        gibPerCore_def smallVpa_lines)
  have "roundMemoryBytes (20 / 1000 * 1024 * 1024 * 1024) = 33554432"
    by (simp add: roundMemoryBytes_def mebibyte_def Math_ceil_def)
  with lines show ?thesis
    by (simp add: validate_low)
qed

section \<open>The batch\<close>

lemma metricsLoop_map:
  "metricsLoop workloadsList metricsData =
     metricsData @
       map (\<lambda>(w, up). case processWorkload w up of
                          Inr processedMetrics \<Rightarrow> Processed processedMetrics
                        | Inl message \<Rightarrow> Failed (onWorkloadError w message))
         workloadsList"
  by (induction workloadsList arbitrary: metricsData) auto

lemma metricsResponse_nth:
  assumes "i < length workloadsList"
  shows "metricsResponse workloadsList ! i =
           (case processWorkload (fst (workloadsList ! i)) (snd (workloadsList ! i)) of
              Inr processedMetrics \<Rightarrow> Processed processedMetrics
            | Inl message \<Rightarrow> Failed (onWorkloadError (fst (workloadsList ! i)) message))"
  using assms by (simp add: metricsResponse_def metricsLoop_map case_prod_unfold)

text \<open>
  Claim C9, amended. For a batch of \<open>N\<close> workloads the response holds \<open>N\<close> items, the
  \<open>i\<close>-th for the \<open>i\<close>-th workload. A workload whose pipeline throws gives an item with the
  properties \<open>name\<close>, \<open>namespace\<close>, \<open>type\<close> (of the request, or \<open>Unknown\<close>), \<open>error\<close> (the
  message) and \<open>status\<close> (\<open>error\<close>), and none of the metrics; every other workload gives
  its full metrics, whatever happens to the rest of the batch.
\<close>

theorem batch_items_isolated:
  "length (metricsResponse workloadsList) = length workloadsList
   \<and> (\<forall>i < length workloadsList.
        (\<forall>m. processWorkload (fst (workloadsList ! i)) (snd (workloadsList ! i)) = Inr m
           \<longrightarrow> metricsResponse workloadsList ! i = Processed m)
      \<and> (\<forall>e. processWorkload (fst (workloadsList ! i)) (snd (workloadsList ! i)) = Inl e
           \<longrightarrow> metricsResponse workloadsList ! i =
                 Failed \<lparr> err_name = w_name (fst (workloadsList ! i)),
                          err_namespace = w_namespace (fst (workloadsList ! i)),
                          err_type = js_orString (w_type (fst (workloadsList ! i))) ''Unknown'',
                          err_error = e,
                          err_status = ''error'' \<rparr>
               \<and> propertyNames (metricsResponse workloadsList ! i) =
                   [''name'', ''namespace'', ''type'', ''error'', ''status'']))"
proof -
  have "length (metricsResponse workloadsList) = length workloadsList"
    by (simp add: metricsResponse_def metricsLoop_map)
  moreover have "\<And>i m. i < length workloadsList \<Longrightarrow>
      processWorkload (fst (workloadsList ! i)) (snd (workloadsList ! i)) = Inr m \<Longrightarrow>
      metricsResponse workloadsList ! i = Processed m"
    by (simp add: metricsResponse_nth)
  moreover have "\<And>i e. i < length workloadsList \<Longrightarrow>
      processWorkload (fst (workloadsList ! i)) (snd (workloadsList ! i)) = Inl e \<Longrightarrow>
      metricsResponse workloadsList ! i =
        Failed \<lparr> err_name = w_name (fst (workloadsList ! i)),
                 err_namespace = w_namespace (fst (workloadsList ! i)),
                 err_type = js_orString (w_type (fst (workloadsList ! i))) ''Unknown'',
                 err_error = e,
                 err_status = ''error'' \<rparr>
      \<and> propertyNames (metricsResponse workloadsList ! i) =
          [''name'', ''namespace'', ''type'', ''error'', ''status'']"
    by (simp add: metricsResponse_nth onWorkloadError_def propertyNames_def)
  ultimately show ?thesis
    by blast
qed

lemma timedOut_fails:
  "processWorkload (workloadNamed ''w3'') timedOutUpstream =
     Inl ''Failed to fetch kubernetes.io/container/cpu/core_usage_time metrics: DEADLINE_EXCEEDED''"
  by (rule processWorkload_fails_cpu) (simp add: timedOutUpstream_def upstreamOf_def)

text \<open>
  Five workloads, the CPU fetch of the third times out: five items, the third is the
  error item, the other four carry their metrics.
\<close>

theorem batch_items_isolated_witness:
  "length (metricsResponse batchOfFive) = 5
   \<and> metricsResponse batchOfFive ! 2 =
       Failed \<lparr> err_name = ''w3'', err_namespace = ''default'', err_type = ''Unknown'',
                err_error = ''Failed to fetch kubernetes.io/container/cpu/core_usage_time metrics: DEADLINE_EXCEEDED'',
                err_status = ''error'' \<rparr>
   \<and> metricsResponse batchOfFive ! 0 =
       Processed (projr (processWorkload (workloadNamed ''w1'') usageOnlyUpstream))
   \<and> metricsResponse batchOfFive ! 1 =
       Processed (projr (processWorkload (workloadNamed ''w2'') vpaUpstream))
   \<and> metricsResponse batchOfFive ! 3 =
       Processed (projr (processWorkload (workloadNamed ''w4'') heavyCpuUpstream))
   \<and> metricsResponse batchOfFive ! 4 =
       Processed (projr (processWorkload (workloadNamed ''w5'') usageOnlyUpstream))"
proof -
  note all = batch_items_isolated [of batchOfFive]
  have len: "length batchOfFive = 5"
    by (simp add: batchOfFive_def)
  have ok: "\<And>n. processWorkload (workloadNamed n) usageOnlyUpstream =
                  Inr (projr (processWorkload (workloadNamed n) usageOnlyUpstream))"
      "\<And>n. processWorkload (workloadNamed n) vpaUpstream =
                  Inr (projr (processWorkload (workloadNamed n) vpaUpstream))"
      "\<And>n. processWorkload (workloadNamed n) heavyCpuUpstream =
                  Inr (projr (processWorkload (workloadNamed n) heavyCpuUpstream))"
    by (rule processWorkload_succeeds;
        simp add: usageOnlyUpstream_def vpaUpstream_def heavyCpuUpstream_def upstreamOf_def)+
  have at: "batchOfFive ! 0 = (workloadNamed ''w1'', usageOnlyUpstream)"
      "batchOfFive ! 1 = (workloadNamed ''w2'', vpaUpstream)"
      "batchOfFive ! 2 = (workloadNamed ''w3'', timedOutUpstream)"
      "batchOfFive ! 3 = (workloadNamed ''w4'', heavyCpuUpstream)"
      "batchOfFive ! 4 = (workloadNamed ''w5'', usageOnlyUpstream)"
    by (simp_all add: batchOfFive_def)
  from all len have "length (metricsResponse batchOfFive) = 5"
    by simp
  moreover from all len at(3) timedOut_fails
  have "metricsResponse batchOfFive ! 2 =
       Failed \<lparr> err_name = ''w3'', err_namespace = ''default'', err_type = ''Unknown'',
                err_error = ''Failed to fetch kubernetes.io/container/cpu/core_usage_time metrics: DEADLINE_EXCEEDED'',
                err_status = ''error'' \<rparr>"
    by (simp add: workloadNamed_def js_orString_def)
  moreover from all len at(1) ok(1) [of "''w1''"]
  have "metricsResponse batchOfFive ! 0 =
       Processed (projr (processWorkload (workloadNamed ''w1'') usageOnlyUpstream))"
    by simp
  moreover from all len at(2) ok(2) [of "''w2''"]
  have "metricsResponse batchOfFive ! 1 =
       Processed (projr (processWorkload (workloadNamed ''w2'') vpaUpstream))"
    by simp
  moreover from all len at(4) ok(3) [of "''w4''"]
  have "metricsResponse batchOfFive ! 3 =
       Processed (projr (processWorkload (workloadNamed ''w4'') heavyCpuUpstream))"
    by simp
  moreover from all len at(5) ok(1) [of "''w5''"]
  have "metricsResponse batchOfFive ! 4 =
       Processed (projr (processWorkload (workloadNamed ''w5'') usageOnlyUpstream))"
    by simp
  ultimately show ?thesis
    by blast
qed

text \<open>
  The claim as it stands fails on the properties of the error item: it has \<open>type\<close> and
  \<open>status\<close> next to \<open>name\<close>, \<open>namespace\<close> and \<open>error\<close>.
\<close>

theorem error_item_properties_counterexample:
  "metricsResponse batchOfFive ! 2 =
       Failed \<lparr> err_name = ''w3'', err_namespace = ''default'', err_type = ''Unknown'',
                err_error = ''Failed to fetch kubernetes.io/container/cpu/core_usage_time metrics: DEADLINE_EXCEEDED'',
                err_status = ''error'' \<rparr>
   \<and> propertyNames (metricsResponse batchOfFive ! 2) =
       [''name'', ''namespace'', ''type'', ''error'', ''status'']
   \<and> ''status'' \<notin> {''name'', ''namespace'', ''error''}"
proof -
  have at: "batchOfFive ! 2 = (workloadNamed ''w3'', timedOutUpstream)"
    by (simp add: batchOfFive_def)
  have "metricsResponse batchOfFive ! 2 =
          (case processWorkload (fst (batchOfFive ! 2)) (snd (batchOfFive ! 2)) of
              Inr processedMetrics \<Rightarrow> Processed processedMetrics
            | Inl message \<Rightarrow> Failed (onWorkloadError (fst (batchOfFive ! 2)) message))"
    by (rule metricsResponse_nth) (simp add: batchOfFive_def)
  then have item: "metricsResponse batchOfFive ! 2 =
       Failed \<lparr> err_name = ''w3'', err_namespace = ''default'', err_type = ''Unknown'',
                err_error = ''Failed to fetch kubernetes.io/container/cpu/core_usage_time metrics: DEADLINE_EXCEEDED'',
                err_status = ''error'' \<rparr>"
    unfolding at fst_conv snd_conv timedOut_fails
    by (simp add: onWorkloadError_def workloadNamed_def js_orString_def)
  show ?thesis
    unfolding item by (simp add: propertyNames_def)
qed

end
